theory Spec2Isabelle
  imports Complex_Main "HOL-Library.Word" "HOL-Library.Product_Lexorder"
begin

section \<open>Python values, errors and text\<close>

text \<open>
  The development embeds \<^verbatim>\<open>ihm/metadata.py\<close> (Python 3 behaviour; the
  \<^verbatim>\<open>sys.version_info[0] < 3\<close> branches are not taken).  A \<^typ>\<open>string\<close> is a list of
  8-bit characters: for a binary file these are its bytes, for a text file they are its
  code points, which the model takes to lie below 256.
\<close>

datatype pyval =
    PNone
  | PBool bool
  | PInt int
  | PFloat real
  | PStr string
  | PList "pyval list"
  | PDict "(string \<times> pyval) list"

datatype error =
    IOError
  | StructError
  | UnicodeDecodeError
  | AttributeError
  | KeyError pyval
  | IndexError
  | TypeError
  | ValueError
  | NetworkError

text \<open>Python's truth value of an object, as tested by \<^verbatim>\<open>if x\<close>.\<close>

fun truthy :: "pyval \<Rightarrow> bool" where
  "truthy PNone = False"
| "truthy (PBool b) = b"
| "truthy (PInt i) = (i \<noteq> 0)"
| "truthy (PFloat r) = (r \<noteq> 0)"
| "truthy (PStr s) = (s \<noteq> [])"
| "truthy (PList xs) = (xs \<noteq> [])"
| "truthy (PDict kvs) = (kvs \<noteq> [])"

definition ord :: "char \<Rightarrow> nat" where
  "ord c = of_char c"

text \<open>Whitespace of \<^verbatim>\<open>bytes.strip()\<close>: space, tab, newline, return, VT, FF.\<close>

definition is_space_bytes :: "char \<Rightarrow> bool" where
  "is_space_bytes c = (ord c = 32 \<or> (9 \<le> ord c \<and> ord c \<le> 13))"

text \<open>Whitespace of \<^verbatim>\<open>str.strip()\<close> and of \<^verbatim>\<open>\s\<close> in a text pattern, for code points below 256.\<close>

definition is_space :: "char \<Rightarrow> bool" where
  "is_space c = (ord c = 32 \<or> (9 \<le> ord c \<and> ord c \<le> 13) \<or> (28 \<le> ord c \<and> ord c \<le> 31)
                 \<or> ord c = 133 \<or> ord c = 160)"

definition is_digit :: "char \<Rightarrow> bool" where
  "is_digit c = (48 \<le> ord c \<and> ord c \<le> 57)"

definition lstrip :: "(char \<Rightarrow> bool) \<Rightarrow> string \<Rightarrow> string" where
  "lstrip sp s = dropWhile sp s"

definition rstrip :: "(char \<Rightarrow> bool) \<Rightarrow> string \<Rightarrow> string" where
  "rstrip sp s = rev (dropWhile sp (rev s))"

definition strip :: "(char \<Rightarrow> bool) \<Rightarrow> string \<Rightarrow> string" where
  "strip sp s = rstrip sp (lstrip sp s)"

definition startswith :: "string \<Rightarrow> string \<Rightarrow> bool" where
  "startswith s p = (take (length p) s = p)"

text \<open>The slice \<^verbatim>\<open>s[i:j]\<close> for non-negative \<open>i \<le> j\<close>.\<close>

definition slice :: "string \<Rightarrow> nat \<Rightarrow> nat \<Rightarrow> string" where
  "slice s i j = take (j - i) (drop i s)"

section \<open>Regular expressions as Python's \<^verbatim>\<open>re\<close> matches them\<close>

text \<open>
  The patterns of the module use literals, character sets, greedy repetition of a single
  character set, capturing groups, one optional group and \<^verbatim>\<open>$\<close>.  A backtracking matcher
  tries the alternatives in a fixed priority order and returns the first that succeeds;
  \<open>rx_run\<close> lists every way to match in that order, so the head of the list is the match
  that \<^verbatim>\<open>re\<close> reports.
\<close>

datatype cset =
    Lit char
  | AnyChar
  | Digit
  | NonSpace
  | Ranges "(char \<times> char) list"

fun cs_mem :: "cset \<Rightarrow> char \<Rightarrow> bool" where
  "cs_mem (Lit a) c = (c = a)"
| "cs_mem AnyChar c = (ord c \<noteq> 10)"
| "cs_mem Digit c = is_digit c"
| "cs_mem NonSpace c = (\<not> is_space c)"
| "cs_mem (Ranges rs) c = list_ex (\<lambda>(a, b). ord a \<le> ord c \<and> ord c \<le> ord b) rs"

datatype rx =
    Str string
  | Atom cset
  | Star cset
  | Plus cset
  | Times nat cset
  | Seq rx rx
  | Grp nat rx
  | Opt rx
  | Eos

type_synonym groups = "nat \<rightharpoonup> string"

fun rx_run :: "rx \<Rightarrow> string \<Rightarrow> groups \<Rightarrow> (string \<times> groups) list" where
  "rx_run (Str p) s g = (if take (length p) s = p then [(drop (length p) s, g)] else [])"
| "rx_run (Atom cs) s g =
     (case s of [] \<Rightarrow> [] | c # t \<Rightarrow> if cs_mem cs c then [(t, g)] else [])"
| "rx_run (Star cs) s g =
     map (\<lambda>k. (drop k s, g)) (rev [0 ..< Suc (length (takeWhile (cs_mem cs) s))])"
| "rx_run (Plus cs) s g =
     map (\<lambda>k. (drop k s, g)) (rev [1 ..< Suc (length (takeWhile (cs_mem cs) s))])"
| "rx_run (Times n cs) s g =
     (if n \<le> length (takeWhile (cs_mem cs) (take n s)) then [(drop n s, g)] else [])"
| "rx_run (Seq a b) s g = concat (map (\<lambda>(s', g'). rx_run b s' g') (rx_run a s g))"
| "rx_run (Grp i r) s g =
     map (\<lambda>(s', g'). (s', g'(i \<mapsto> take (length s - length s') s))) (rx_run r s g)"
| "rx_run (Opt r) s g = rx_run r s g @ [(s, g)]"
| "rx_run Eos s g = (if s = [] \<or> s = [CHR 0x0A] then [(s, g)] else [])"

fun seqs :: "rx list \<Rightarrow> rx" where
  "seqs [] = Str []"
| "seqs [r] = r"
| "seqs (r # rs) = Seq r (seqs rs)"

text \<open>\<^verbatim>\<open>re.match\<close>: the pattern must match at the start of the string.\<close>

definition re_match :: "rx \<Rightarrow> string \<Rightarrow> groups option" where
  "re_match r s = (case rx_run r s Map.empty of [] \<Rightarrow> None | (s', g) # _ \<Rightarrow> Some g)"

text \<open>\<^verbatim>\<open>re.search\<close>: the leftmost start position at which the pattern matches.\<close>

fun re_search :: "rx \<Rightarrow> string \<Rightarrow> groups option" where
  "re_search r [] = re_match r []"
| "re_search r (c # t) =
     (case re_match r (c # t) of Some g \<Rightarrow> Some g | None \<Rightarrow> re_search r t)"

section \<open>Files\<close>

text \<open>
  A file system maps a file name to the file's content; \<^verbatim>\<open>open\<close> of a name that is not
  there raises.  An open file is its content and the position of the next read.
\<close>

type_synonym filesystem = "string \<rightharpoonup> string"

record fh =
  content :: string
  pos :: nat

definition fh_open :: "filesystem \<Rightarrow> string \<Rightarrow> error + fh" where
  "fh_open fs filename =
     (case fs filename of None \<Rightarrow> Inl IOError
      | Some c \<Rightarrow> Inr \<lparr>content = c, pos = 0\<rparr>)"

definition fh_seek :: "nat \<Rightarrow> fh \<Rightarrow> fh" where
  "fh_seek n h = h\<lparr>pos := n\<rparr>"

text \<open>\<^verbatim>\<open>fh.read(n)\<close> returns at most \<open>n\<close> bytes, fewer at the end of the file, and advances.\<close>

definition fh_read :: "nat \<Rightarrow> fh \<Rightarrow> string \<times> fh" where
  "fh_read n h =
     (let d = take n (drop (pos h) (content h))
      in (d, h\<lparr>pos := pos h + length d\<rparr>))"

section \<open>MRCParser: the EMDB identifier of a density map\<close>

text \<open>
  \<^verbatim>\<open>struct.unpack_from('>i', raw)\<close> and \<^verbatim>\<open>'<i'\<close>: the first four bytes as a signed 32-bit
  integer, most or least significant byte first; a shorter buffer raises \<^verbatim>\<open>struct.error\<close>.
\<close>

definition word_of_bytes :: "string \<Rightarrow> 32 word" where
  "word_of_bytes bs = foldl (\<lambda>w c. push_bit 8 w + of_nat (ord c)) 0 bs"

definition unpack_from_i :: "bool \<Rightarrow> string \<Rightarrow> error + int" where
  "unpack_from_i big raw =
     (if length raw < 4 then Inl StructError
      else Inr (sint (word_of_bytes (if big then take 4 raw else rev (take 4 raw)))))"

text \<open>The pattern \<^verbatim>\<open>b'EMDATABANK\.org.*(EMD\-\d+)'\<close>.\<close>

definition emdb_re :: rx where
  "emdb_re = seqs [Str ''EMDATABANK'', Atom (Lit CHR ''.''), Str ''org'', Star AnyChar,
                   Grp 1 (Seq (Str ''EMD-'') (Plus Digit))]"

text \<open>\<^verbatim>\<open>m.group(i)\<close> is \<^verbatim>\<open>None\<close> for a group that took no part in the match.\<close>

definition match_group :: "groups \<Rightarrow> nat \<Rightarrow> pyval" where
  "match_group g i = (case g i of None \<Rightarrow> PNone | Some s \<Rightarrow> PStr s)"

text \<open>\<^verbatim>\<open>x.decode('ascii')\<close>; \<^verbatim>\<open>None\<close> has no such method.\<close>

fun decode_ascii :: "pyval \<Rightarrow> error + string" where
  "decode_ascii (PStr b) = (if list_all (\<lambda>c. ord c < 128) b then Inr b else Inl UnicodeDecodeError)"
| "decode_ascii _ = Inl AttributeError"

text \<open>
  The loop \<^verbatim>\<open>for i in range(num_labels)\<close> of \<^verbatim>\<open>_get_emdb\<close>, on the number of iterations
  left.  The file handle is returned with the result, so that the reads made are visible.
  Falling out of the loop returns \<^verbatim>\<open>None\<close>.
\<close>

fun label_loop :: "nat \<Rightarrow> fh \<Rightarrow> (error + string option) \<times> fh" where
  "label_loop 0 h = (Inr None, h)"
| "label_loop (Suc k) h =
     (let (raw, h') = fh_read 80 h;
          label = strip is_space_bytes raw
      in case re_search emdb_re label of
           Some m \<Rightarrow> (map_sum id Some (decode_ascii (match_group m 1)), h')
         | None \<Rightarrow> label_loop k h')"

definition get_emdb_fh :: "filesystem \<Rightarrow> string \<Rightarrow> (error + string option) \<times> fh option" where
  "get_emdb_fh fs filename =
     (case fh_open fs filename of
        Inl e \<Rightarrow> (Inl e, None)
      | Inr h0 \<Rightarrow>
          (let h1 = fh_seek 220 h0;
               (num_labels_raw, h2) = fh_read 4 h1
           in (case unpack_from_i True num_labels_raw of
                 Inl e \<Rightarrow> (Inl e, Some h2)
               | Inr num_labels_big \<Rightarrow>
                   (case unpack_from_i False num_labels_raw of
                      Inl e \<Rightarrow> (Inl e, Some h2)
                    | Inr num_labels_little \<Rightarrow>
                        (let num_labels = min num_labels_big num_labels_little;
                             (r, h3) = label_loop (nat num_labels) h2
                         in (r, Some h3))))))"

text \<open>\<^verbatim>\<open>MRCParser._get_emdb\<close>: the EMDB id of the file, or \<^verbatim>\<open>None\<close>.\<close>

definition get_emdb :: "filesystem \<Rightarrow> string \<Rightarrow> error + string option" where
  "get_emdb fs filename = fst (get_emdb_fh fs filename)"

section \<open>Locations, datasets and templates\<close>

text \<open>
  Modelled from the spec: the classes of \<^verbatim>\<open>ihm.location\<close>, \<^verbatim>\<open>ihm.dataset\<close> and
  \<^verbatim>\<open>ihm.startmodel\<close> are not part of the sources at hand.  Following the data model of the
  specification, a location is a database entry (accession, optional version, optional
  details) or a file (path, optional repository, optional details); a dataset has a kind,
  a location and an ordered list of parents; a template is one row of comparative-modelling
  provenance.  The constructors carry the names the module uses.  Optional fields hold a
  Python value, \<^verbatim>\<open>None\<close> when absent.
\<close>

datatype repository = Repository (doi: string)

datatype location =
    PDBLocation (db_code: string) (version: pyval) (details: pyval)
  | EMDBLocation (db_code: string) (version: pyval) (details: pyval)
  | InputFileLocation (path: string) (repo: "repository option") (details: pyval)

datatype dataset_kind = ExperimentalStructure | ComparativeModel | DensityMap

datatype dataset = Dataset (kind: dataset_kind) (location: location) (parents: "dataset list")

definition PDBDataset :: "location \<Rightarrow> dataset" where
  "PDBDataset l = Dataset ExperimentalStructure l []"

definition ComparativeModelDataset :: "location \<Rightarrow> dataset" where
  "ComparativeModelDataset l = Dataset ComparativeModel l []"

definition EMDensityDataset :: "location \<Rightarrow> dataset" where
  "EMDensityDataset l = Dataset DensityMap l []"

text \<open>\<^verbatim>\<open>d.parents.append(p)\<close> and \<^verbatim>\<open>l.details = v\<close>.\<close>

definition parents_append :: "dataset \<Rightarrow> dataset \<Rightarrow> dataset" where
  "parents_append d p = Dataset (kind d) (location d) (parents d @ [p])"

fun set_details :: "location \<Rightarrow> pyval \<Rightarrow> location" where
  "set_details (PDBLocation c v d) x = PDBLocation c v x"
| "set_details (EMDBLocation c v d) x = EMDBLocation c v x"
| "set_details (InputFileLocation p r d) x = InputFileLocation p r x"

text \<open>
  Modelled from the spec: \<^verbatim>\<open>ihm.startmodel.PDBHelix\<close> is not part of the sources at hand; a
  secondary-structure record is kept as the line it was built from.
\<close>

datatype pdb_record = PDBHelix string

record 'f template =
  dataset :: dataset
  asym_id :: string
  seq_id_range :: "int \<times> int"
  template_seq_id_range :: "int \<times> int"
  sequence_identity :: 'f
  alignment_file :: "location option"

text \<open>
  Modelled from the spec: \<^verbatim>\<open>ihm.format.CifWriter.unknown\<close>, the marker for an unknown
  value, is not part of the sources at hand.
\<close>

definition CifWriter_unknown :: pyval where
  "CifWriter_unknown = PStr ''?''"

section \<open>MRCParser: extraction\<close>

text \<open>Subscripting a Python value with an integer index and with a text key.\<close>

fun getitem_index :: "pyval \<Rightarrow> nat \<Rightarrow> error + pyval" where
  "getitem_index (PList xs) i = (if i < length xs then Inr (xs ! i) else Inl IndexError)"
| "getitem_index (PStr s) i = (if i < length s then Inr (PStr [s ! i]) else Inl IndexError)"
| "getitem_index (PDict kvs) i = Inl (KeyError (PInt (int i)))"
| "getitem_index _ i = Inl TypeError"

fun getitem_key :: "pyval \<Rightarrow> string \<Rightarrow> error + pyval" where
  "getitem_key (PDict kvs) k =
     (case map_of kvs k of None \<Rightarrow> Inl (KeyError (PStr k)) | Some v \<Rightarrow> Inr v)"
| "getitem_key _ k = Inl TypeError"

text \<open>\<^verbatim>\<open>list(contents.keys())\<close>; only a dict has the method.\<close>

fun dict_keys :: "pyval \<Rightarrow> error + string list" where
  "dict_keys (PDict kvs) = Inr (map fst kvs)"
| "dict_keys _ = Inl AttributeError"

definition emdb_url :: "string \<Rightarrow> string" where
  "emdb_url emdb = ''https://www.ebi.ac.uk/pdbe/api/emdb/entry/summary/'' @ emdb"

text \<open>
  \<^verbatim>\<open>MRCParser._get_emdb_info\<close>.  The request to the EMDB web service and the decoding of
  its answer (\<^verbatim>\<open>urllib2.urlopen\<close>, \<^verbatim>\<open>json.load\<close>) are the parameter \<open>urlopen_json\<close>: the
  parsed answer for a URL, or the error raised.
\<close>

definition get_emdb_info :: "(string \<Rightarrow> error + pyval) \<Rightarrow> string \<Rightarrow> error + pyval \<times> pyval" where
  "get_emdb_info urlopen_json emdb =
     (case urlopen_json (emdb_url emdb) of Inl e \<Rightarrow> Inl e
      | Inr contents \<Rightarrow>
     (case dict_keys contents of Inl e \<Rightarrow> Inl e
      | Inr keys \<Rightarrow>
     (case keys of [] \<Rightarrow> Inl IndexError
      | k0 # _ \<Rightarrow>
     (case getitem_key contents k0 of Inl e \<Rightarrow> Inl e
      | Inr entries \<Rightarrow>
     (case getitem_index entries 0 of Inl e \<Rightarrow> Inl e
      | Inr entry \<Rightarrow>
     (case getitem_key entry ''deposition'' of Inl e \<Rightarrow> Inl e
      | Inr info \<Rightarrow>
     (case getitem_key info ''map_release_date'' of Inl e \<Rightarrow> Inl e
      | Inr date \<Rightarrow>
     (case getitem_key info ''title'' of Inl e \<Rightarrow> Inl e
      | Inr title \<Rightarrow> Inr (date, title)))))))))"

text \<open>
  \<^verbatim>\<open>MRCParser.parse_file\<close>; the returned dict has the single key \<^verbatim>\<open>'dataset'\<close> and is
  represented by its value.
\<close>

definition MRCParser_parse_file ::
    "(string \<Rightarrow> error + pyval) \<Rightarrow> filesystem \<Rightarrow> string \<Rightarrow> error + dataset" where
  "MRCParser_parse_file urlopen_json fs filename =
     (case get_emdb fs filename of Inl e \<Rightarrow> Inl e
      | Inr emdb \<Rightarrow>
          (let local = EMDensityDataset (InputFileLocation filename None
                         (PStr ''Electron microscopy density map''))
           in case emdb of
                None \<Rightarrow> Inr local
              | Some a \<Rightarrow>
                  if a = [] then Inr local
                  else (case get_emdb_info urlopen_json a of Inl e \<Rightarrow> Inl e
                        | Inr (v, d) \<Rightarrow>
                            Inr (EMDensityDataset (EMDBLocation a v
                                   (if truthy d then d
                                    else PStr ''Electron microscopy density map''))))))"

section \<open>PDBParser\<close>

subsection \<open>Text files and text helpers\<close>

text \<open>
  A text file is read as its lines, each with its newline (the last line may lack one).
  The content stored in the file system is the text after decoding and newline translation.
\<close>

fun readlines :: "string \<Rightarrow> string list" where
  "readlines [] = []"
| "readlines (c # cs) =
     (if c = CHR 0x0A then [c] # readlines cs
      else (case readlines cs of [] \<Rightarrow> [[c]] | l # ls \<Rightarrow> (c # l) # ls))"

definition open_text :: "filesystem \<Rightarrow> string \<Rightarrow> error + string list" where
  "open_text fs filename =
     (case fs filename of None \<Rightarrow> Inl IOError | Some c \<Rightarrow> Inr (readlines c))"

text \<open>\<^verbatim>\<open>s.split(' ', 1)\<close>: split at the first space, if there is one.\<close>

definition split_space_1 :: "string \<Rightarrow> string list" where
  "split_space_1 s =
     (if CHR '' '' \<in> set s
      then [takeWhile (\<lambda>c. c \<noteq> CHR '' '') s, drop 1 (dropWhile (\<lambda>c. c \<noteq> CHR '' '') s)]
      else [s])"

text \<open>
  \<^verbatim>\<open>s.upper()\<close> on the letters a to z; the module applies it to text made of ASCII letters
  and digits only.
\<close>

definition upper :: "string \<Rightarrow> string" where
  "upper s = map (\<lambda>c. if 97 \<le> ord c \<and> ord c \<le> 122 then char_of (ord c - 32) else c) s"

text \<open>
  \<^verbatim>\<open>int(s)\<close> for text: surrounding whitespace is dropped, a sign may come first, then
  decimal digits, where a single underscore may stand between two digits.  Anything else
  raises \<^verbatim>\<open>ValueError\<close>.
\<close>

fun valid_digits :: "string \<Rightarrow> bool" where
  "valid_digits [] = False"
| "valid_digits [c] = is_digit c"
| "valid_digits (c # d # r) =
     (if is_digit c then (if d = CHR ''_'' then valid_digits r else valid_digits (d # r))
      else False)"

definition digits_value :: "string \<Rightarrow> int" where
  "digits_value ds = foldl (\<lambda>a c. 10 * a + (int (ord c) - 48)) 0 (filter is_digit ds)"

definition py_int :: "string \<Rightarrow> error + int" where
  "py_int s =
     (let t = strip is_space s;
          neg = startswith t ''-'';
          body = (if startswith t ''-'' \<or> startswith t ''+'' then drop 1 t else t)
      in if valid_digits body
         then Inr (if neg then - digits_value body else digits_value body)
         else Inl ValueError)"

text \<open>
  The value of a group that takes part in every match of its pattern.  The groups read
  this way below are all of that kind (lemma \<open>rx_run_binds\<close>), so the empty text for a
  missing group is never returned.
\<close>

definition grp :: "groups \<Rightarrow> nat \<Rightarrow> string" where
  "grp m i = (case m i of None \<Rightarrow> [] | Some s \<Rightarrow> s)"

fun binds :: "rx \<Rightarrow> nat set" where
  "binds (Grp i r) = insert i (binds r)"
| "binds (Seq a b) = binds a \<union> binds b"
| "binds _ = {}"

subsection \<open>Records of an official PDB file and title lines\<close>

text \<open>The loop of \<^verbatim>\<open>_parse_pdb_records\<close> over the remaining lines, with its two accumulators.\<close>

fun pdb_records_loop :: "string list \<Rightarrow> string \<Rightarrow> pdb_record list \<Rightarrow> string \<times> pdb_record list" where
  "pdb_records_loop [] details' metadata = (details', metadata)"
| "pdb_records_loop (line # fh) details' metadata =
     (if startswith line ''TITLE'' then
        pdb_records_loop fh (details' @ rstrip is_space (drop 10 line)) metadata
      else if startswith line ''HELIX'' then
        pdb_records_loop fh details' (metadata @ [PDBHelix line])
      else pdb_records_loop fh details' metadata)"

definition parse_pdb_records :: "string list \<Rightarrow> string \<Rightarrow> pyval \<times> pyval \<times> pdb_record list" where
  "parse_pdb_records fh first_line =
     (let (details', metadata) = pdb_records_loop fh [] []
      in (PStr (strip is_space (slice first_line 50 59)),
          (if details' \<noteq> [] then PStr details' else PNone), metadata))"

text \<open>The loop of \<^verbatim>\<open>_parse_details\<close>, left at the first line that starts with \<^verbatim>\<open>ATOM\<close>.\<close>

fun parse_details_loop :: "string list \<Rightarrow> string \<Rightarrow> string" where
  "parse_details_loop [] details' = details'"
| "parse_details_loop (line # fh) details' =
     (if startswith line ''TITLE'' then
        parse_details_loop fh (details' @ rstrip is_space (drop 10 line))
      else if startswith line ''ATOM'' then details'
      else parse_details_loop fh details')"

definition parse_details :: "string list \<Rightarrow> string" where
  "parse_details fh = parse_details_loop fh []"

subsection \<open>Templates of a comparative model\<close>

text \<open>
  The patterns \<^verbatim>\<open>'REMARK   6 ALIGNMENT: (\S+)'\<close>,
  \<^verbatim>\<open>'REMARK   6 TEMPLATE PATH (\S+) (\S+)'\<close>,
  \<^verbatim>\<open>'REMARK   6 TEMPLATE: (\S+) (\S+):(\S+) \- (\S+):\S+ MODELS (\S+):\S+ \- (\S+):\S+ AT (\S+)%'\<close>
  and \<^verbatim>\<open>'(\d[a-zA-Z0-9]{3})[a-zA-Z](_.*)?$'\<close>.
\<close>

definition alnfilere :: rx where
  "alnfilere = seqs [Str ''REMARK   6 ALIGNMENT: '', Grp 1 (Plus NonSpace)]"

definition tmppathre :: rx where
  "tmppathre = seqs [Str ''REMARK   6 TEMPLATE PATH '', Grp 1 (Plus NonSpace), Str '' '',
                     Grp 2 (Plus NonSpace)]"

definition tmpre :: rx where
  "tmpre = seqs [Str ''REMARK   6 TEMPLATE: '',
                 Grp 1 (Plus NonSpace), Str '' '', Grp 2 (Plus NonSpace), Str '':'',
                 Grp 3 (Plus NonSpace), Str '' - '', Grp 4 (Plus NonSpace), Str '':'',
                 Plus NonSpace, Str '' MODELS '', Grp 5 (Plus NonSpace), Str '':'',
                 Plus NonSpace, Str '' - '', Grp 6 (Plus NonSpace), Str '':'',
                 Plus NonSpace, Str '' AT '', Grp 7 (Plus NonSpace), Str ''%'']"

definition pdb_code_re :: rx where
  "pdb_code_re =
     seqs [Grp 1 (Seq (Atom Digit)
                      (Times 3 (Ranges [(CHR ''a'', CHR ''z''), (CHR ''A'', CHR ''Z''),
                                        (CHR ''0'', CHR ''9'')]))),
           Atom (Ranges [(CHR ''a'', CHR ''z''), (CHR ''A'', CHR ''Z'')]),
           Opt (Grp 2 (Seq (Atom (Lit CHR ''_'')) (Star AnyChar))),
           Eos]"

text \<open>
  \<^verbatim>\<open>PDBParser._handle_template\<close>.  It appends to the parents of the target dataset, which
  is returned with the template.  \<^verbatim>\<open>float\<close> is the parameter \<open>py_float\<close> (\<open>None\<close> where
  \<^verbatim>\<open>float\<close> raises \<^verbatim>\<open>ValueError\<close>).
\<close>

definition handle_template ::
    "(string \<Rightarrow> 'f option) \<Rightarrow> groups \<Rightarrow> (string \<rightharpoonup> string) \<Rightarrow> dataset \<Rightarrow> location option
       \<Rightarrow> error + 'f template \<times> dataset" where
  "handle_template py_float info template_path_map target_dataset alnfile =
     (let template_code = grp info 1 in
      case py_int (grp info 2) of Inl e \<Rightarrow> Inl e | Inr t_start \<Rightarrow>
     (case py_int (grp info 4) of Inl e \<Rightarrow> Inl e | Inr t_end \<Rightarrow>
     (let template_asym_id = grp info 3 in
      case py_int (grp info 5) of Inl e \<Rightarrow> Inl e | Inr s_start \<Rightarrow>
     (case py_int (grp info 6) of Inl e \<Rightarrow> Inl e | Inr s_end \<Rightarrow>
     (case py_float (grp info 7) of None \<Rightarrow> Inl ValueError | Some identity \<Rightarrow>
     (case (case re_match pdb_code_re template_code of
              Some m \<Rightarrow> Inr (PDBLocation (upper (grp m 1)) PNone PNone)
            | None \<Rightarrow>
                (case template_path_map template_code of
                   None \<Rightarrow> Inl (KeyError (PStr template_code))
                 | Some fname \<Rightarrow>
                     Inr (InputFileLocation fname None
                            (PStr ''Template for comparative modeling''))))
      of Inl e \<Rightarrow> Inl e
       | Inr l \<Rightarrow>
           (let d = PDBDataset l
            in Inr (\<lparr>dataset = d, asym_id = template_asym_id,
                      seq_id_range = (s_start, s_end),
                      template_seq_id_range = (t_start, t_end),
                      sequence_identity = identity,
                      alignment_file = alnfile\<rparr>,
                    parents_append target_dataset d))))))))"

text \<open>
  The list comprehension over the queued matches: templates are built in order, each
  appending to the target dataset; the first error ends it.
\<close>

fun handle_templates ::
    "(string \<Rightarrow> 'f option) \<Rightarrow> groups list \<Rightarrow> (string \<rightharpoonup> string) \<Rightarrow> dataset \<Rightarrow> location option
       \<Rightarrow> error + 'f template list \<times> dataset" where
  "handle_templates py_float [] template_path_map target_dataset alnfile =
     Inr ([], target_dataset)"
| "handle_templates py_float (t # ts) template_path_map target_dataset alnfile =
     (case handle_template py_float t template_path_map target_dataset alnfile of
        Inl e \<Rightarrow> Inl e
      | Inr (tpl, target') \<Rightarrow>
          (case handle_templates py_float ts template_path_map target' alnfile of
             Inl e \<Rightarrow> Inl e
           | Inr (tpls, target'') \<Rightarrow> Inr (tpl # tpls, target'')))"

text \<open>
  The header scan of \<^verbatim>\<open>_get_templates\<close>: the three accumulators, the work done for one
  line, and the loop, left at the first line that starts with \<^verbatim>\<open>ATOM\<close>.
  \<^verbatim>\<open>util._get_relative_path\<close> is not part of the sources at hand and is the parameter
  \<open>get_relative_path\<close>.
\<close>

record scan =
  st_template_path_map :: "string \<rightharpoonup> string"
  st_alnfile :: "location option"
  st_template_info :: "groups list"

definition scan_line :: "(string \<Rightarrow> string \<Rightarrow> string) \<Rightarrow> string \<Rightarrow> string \<Rightarrow> scan \<Rightarrow> scan" where
  "scan_line get_relative_path pdbname line st =
     (let st1 = (case re_match tmppathre line of
                   Some m \<Rightarrow> st\<lparr>st_template_path_map :=
                                 (st_template_path_map st)(grp m 1 \<mapsto> get_relative_path pdbname (grp m 2))\<rparr>
                 | None \<Rightarrow> st);
          st2 = (case re_match alnfilere line of
                   Some m \<Rightarrow> st1\<lparr>st_alnfile :=
                                  Some (InputFileLocation (get_relative_path pdbname (grp m 1)) None
                                          (PStr ''Alignment for starting comparative model''))\<rparr>
                 | None \<Rightarrow> st1)
      in (case re_match tmpre line of
            Some m \<Rightarrow> st2\<lparr>st_template_info := st_template_info st2 @ [m]\<rparr>
          | None \<Rightarrow> st2))"

fun scan_header :: "(string \<Rightarrow> string \<Rightarrow> string) \<Rightarrow> string \<Rightarrow> string list \<Rightarrow> scan \<Rightarrow> scan" where
  "scan_header get_relative_path pdbname [] st = st"
| "scan_header get_relative_path pdbname (line # fh) st =
     (if startswith line ''ATOM'' then st
      else scan_header get_relative_path pdbname fh (scan_line get_relative_path pdbname line st))"

text \<open>
  \<^verbatim>\<open>PDBParser._get_templates\<close>: the templates sorted by \<^verbatim>\<open>seq_id_range\<close> (a stable sort
  on pairs of integers), and the target dataset with its new parents.
\<close>

definition get_templates ::
    "(string \<Rightarrow> string \<Rightarrow> string) \<Rightarrow> (string \<Rightarrow> 'f option) \<Rightarrow> filesystem \<Rightarrow> string \<Rightarrow> dataset
       \<Rightarrow> error + 'f template list \<times> dataset" where
  "get_templates get_relative_path py_float fs pdbname target_dataset =
     (case open_text fs pdbname of Inl e \<Rightarrow> Inl e
      | Inr fh \<Rightarrow>
          (let st = scan_header get_relative_path pdbname fh
                      \<lparr>st_template_path_map = Map.empty, st_alnfile = None, st_template_info = []\<rparr>
           in case handle_templates py_float (st_template_info st) (st_template_path_map st)
                     target_dataset (st_alnfile st) of
                Inl e \<Rightarrow> Inl e
              | Inr (templates, target') \<Rightarrow> Inr (sort_key seq_id_range templates, target')))"

subsection \<open>The extractors and their dispatch\<close>

text \<open>
  The result dict of \<^verbatim>\<open>PDBParser.parse_file\<close>, one field for each key; the key
  \<^verbatim>\<open>'dataset'\<close> is absent until an extractor sets it.
\<close>

record 'f result =
  ret_dataset :: "dataset option"
  ret_templates :: "'f template list"
  ret_software :: "string \<rightharpoonup> pyval"
  ret_metadata :: "pdb_record list"

definition parse_official_pdb :: "string list \<Rightarrow> string \<Rightarrow> 'f result \<Rightarrow> 'f result" where
  "parse_official_pdb fh first_line ret =
     (let (v, d, metadata) = parse_pdb_records fh first_line;
          l = PDBLocation (strip is_space (slice first_line 62 66)) v d
      in ret\<lparr>ret_metadata := metadata, ret_dataset := Some (PDBDataset l)\<rparr>)"

definition parse_derived_from_pdb ::
    "string list \<Rightarrow> string \<Rightarrow> location \<Rightarrow> 'f result \<Rightarrow> 'f result" where
  "parse_derived_from_pdb fh first_line local_file ret =
     (let local_file' = set_details local_file (PStr (parse_details fh));
          db_code = strip is_space (drop 27 first_line);
          d = parents_append (PDBDataset local_file')
                (PDBDataset (PDBLocation db_code PNone PNone))
      in ret\<lparr>ret_dataset := Some d\<rparr>)"

definition parse_derived_from_model ::
    "string list \<Rightarrow> string \<Rightarrow> location \<Rightarrow> 'f result \<Rightarrow> 'f result" where
  "parse_derived_from_model fh first_line local_file ret =
     (let local_file' = set_details local_file (PStr (parse_details fh));
          d = ComparativeModelDataset local_file';
          repo = Repository (strip is_space (drop 46 first_line));
          orig_loc = InputFileLocation ''.'' (Some repo)
                       (PStr ''Starting comparative model structure'')
      in ret\<lparr>ret_dataset := Some (parents_append d (ComparativeModelDataset orig_loc))\<rparr>)"

definition handle_comparative_model ::
    "(string \<Rightarrow> string \<Rightarrow> string) \<Rightarrow> (string \<Rightarrow> 'f option) \<Rightarrow> filesystem \<Rightarrow> location \<Rightarrow> string
       \<Rightarrow> 'f result \<Rightarrow> error + 'f result" where
  "handle_comparative_model get_relative_path py_float fs local_file pdbname ret =
     (let d = ComparativeModelDataset local_file
      in case get_templates get_relative_path py_float fs pdbname d of
           Inl e \<Rightarrow> Inl e
         | Inr (templates, d') \<Rightarrow> Inr (ret\<lparr>ret_dataset := Some d', ret_templates := templates\<rparr>))"

definition parse_modeller_model ::
    "(string \<Rightarrow> string \<Rightarrow> string) \<Rightarrow> (string \<Rightarrow> 'f option) \<Rightarrow> filesystem \<Rightarrow> string \<Rightarrow> location
       \<Rightarrow> string \<Rightarrow> 'f result \<Rightarrow> error + 'f result" where
  "parse_modeller_model get_relative_path py_float fs first_line local_file filename ret =
     handle_comparative_model get_relative_path py_float fs local_file filename
       (ret\<lparr>ret_software := (ret_software ret)
               (''modeller'' \<mapsto> PList (map PStr (split_space_1 (drop 38 first_line))))\<rparr>)"

definition parse_phyre_model ::
    "(string \<Rightarrow> string \<Rightarrow> string) \<Rightarrow> (string \<Rightarrow> 'f option) \<Rightarrow> filesystem \<Rightarrow> string \<Rightarrow> location
       \<Rightarrow> string \<Rightarrow> 'f result \<Rightarrow> error + 'f result" where
  "parse_phyre_model get_relative_path py_float fs first_line local_file filename ret =
     handle_comparative_model get_relative_path py_float fs local_file filename
       (ret\<lparr>ret_software := (ret_software ret)(''phyre2'' \<mapsto> CifWriter_unknown)\<rparr>)"

definition parse_unknown_model ::
    "(string \<Rightarrow> string \<Rightarrow> string) \<Rightarrow> (string \<Rightarrow> 'f option) \<Rightarrow> filesystem \<Rightarrow> string \<Rightarrow> location
       \<Rightarrow> string \<Rightarrow> 'f result \<Rightarrow> error + 'f result" where
  "parse_unknown_model get_relative_path py_float fs first_line local_file filename ret =
     handle_comparative_model get_relative_path py_float fs local_file filename ret"

text \<open>
  \<^verbatim>\<open>PDBParser.parse_file\<close>.  \<^verbatim>\<open>fh.readline()\<close> gives the first line, or the empty text
  for an empty file; the extractors read on from the second line.
\<close>

definition PDBParser_parse_file ::
    "(string \<Rightarrow> string \<Rightarrow> string) \<Rightarrow> (string \<Rightarrow> 'f option) \<Rightarrow> filesystem \<Rightarrow> string
       \<Rightarrow> error + 'f result" where
  "PDBParser_parse_file get_relative_path py_float fs filename =
     (let ret = \<lparr>ret_dataset = None, ret_templates = [], ret_software = Map.empty,
                 ret_metadata = []\<rparr>
      in case open_text fs filename of Inl e \<Rightarrow> Inl e
         | Inr lines \<Rightarrow>
             (let first_line = (case lines of [] \<Rightarrow> [] | l # _ \<Rightarrow> l);
                  fh = drop 1 lines;
                  local_file = InputFileLocation filename None (PStr ''Starting model structure'')
              in if startswith first_line ''HEADER'' then
                   Inr (parse_official_pdb fh first_line ret)
                 else if startswith first_line ''EXPDTA    DERIVED FROM PDB:'' then
                   Inr (parse_derived_from_pdb fh first_line local_file ret)
                 else if startswith first_line
                           ''EXPDTA    DERIVED FROM COMPARATIVE MODEL, DOI:'' then
                   Inr (parse_derived_from_model fh first_line local_file ret)
                 else if startswith first_line ''EXPDTA    THEORETICAL MODEL, MODELLER'' then
                   parse_modeller_model get_relative_path py_float fs first_line local_file
                     filename ret
                 else if startswith first_line ''REMARK  99  Chain ID :'' then
                   parse_phyre_model get_relative_path py_float fs first_line local_file
                     filename ret
                 else
                   parse_unknown_model get_relative_path py_float fs first_line local_file
                     filename ret))"

section \<open>Notions used in the statements\<close>

subsection \<open>Density maps\<close>

text \<open>
  The label count of a map with at least 224 bytes: the smaller of the two readings of
  bytes 220 to 223.  Label record \<open>i\<close> is the 80 bytes from offset \<open>224 + 80 * i\<close> (fewer, or
  none, at the end of the file).  The accession of a record is the code that the pattern
  finds in it after stripping.
\<close>

definition label_count :: "string \<Rightarrow> int" where
  "label_count c =
     min (sint (word_of_bytes (slice c 220 224))) (sint (word_of_bytes (rev (slice c 220 224))))"

definition label_record :: "string \<Rightarrow> nat \<Rightarrow> string" where
  "label_record c i = slice c (224 + 80 * i) (224 + 80 * i + 80)"

definition accession_of :: "string \<Rightarrow> string option" where
  "accession_of label =
     (case re_search emdb_re (strip is_space_bytes label) of None \<Rightarrow> None | Some m \<Rightarrow> m 1)"

fun first_some :: "'a option list \<Rightarrow> 'a option" where
  "first_some [] = None"
| "first_some (None # xs) = first_some xs"
| "first_some (Some x # xs) = Some x"

text \<open>
  The accessions of the first \<open>n\<close> label records, and how many of them a scan that stops
  at the first accession looks at: all \<open>n\<close> if none holds an accession.
\<close>

definition record_accessions :: "string \<Rightarrow> nat \<Rightarrow> string option list" where
  "record_accessions c n = map (\<lambda>i. accession_of (label_record c i)) [0..<n]"

definition records_scanned :: "string \<Rightarrow> nat \<Rightarrow> nat" where
  "records_scanned c n =
     (case first_some (record_accessions c n) of
        None \<Rightarrow> n
      | Some a \<Rightarrow> Suc (length (takeWhile (\<lambda>x. x = None) (record_accessions c n))))"

text \<open>
  Maps for the examples: 220 zero bytes, the four bytes of the label count, and label
  records of 80 bytes each.  The first has the label count 2 (stored most significant byte
  first), an empty label and one with an accession.  The second has the label count 11
  (stored least significant byte first), ten empty labels, which fill the label area up to
  offset 1024, and an accession in the 80 bytes after it.  The third has the label count
  \<open>-1\<close> in either byte order and an accession in its first label.
\<close>

definition map_header :: "string \<Rightarrow> string" where
  "map_header count = replicate 220 (CHR 0x00) @ count"

definition blank_label :: string where
  "blank_label = replicate 80 CHR '' ''"

definition accession_label :: string where
  "accession_label = ''::::EMDATABANK.org::::EMD-1234::::'' @ replicate 46 CHR '' ''"

definition example_map :: string where
  "example_map = map_header [CHR 0x00, CHR 0x00, CHR 0x00, CHR 0x02]
                 @ concat [blank_label, accession_label]"

definition overlong_map :: string where
  "overlong_map = map_header [CHR 0x0B, CHR 0x00, CHR 0x00, CHR 0x00]
                  @ concat (replicate 10 blank_label @ [accession_label])"

definition negative_count_map :: string where
  "negative_count_map = map_header [CHR 0xFF, CHR 0xFF, CHR 0xFF, CHR 0xFF]
                        @ concat [accession_label]"

subsection \<open>Structure files\<close>

text \<open>
  The title text and the secondary-structure records of a list of lines, and the header of
  a file: the lines before the first one that starts with \<^verbatim>\<open>ATOM\<close>.
\<close>

definition title_text :: "string list \<Rightarrow> string" where
  "title_text ls =
     concat (map (\<lambda>l. rstrip is_space (drop 10 l)) (filter (\<lambda>l. startswith l ''TITLE'') ls))"

definition helix_records :: "string list \<Rightarrow> pdb_record list" where
  "helix_records ls = map PDBHelix (filter (\<lambda>l. startswith l ''HELIX'') ls)"

definition header_lines :: "string list \<Rightarrow> string list" where
  "header_lines ls = takeWhile (\<lambda>l. \<not> startswith l ''ATOM'') ls"

text \<open>
  The per-template statistics records of a header, in order; the search-path table, in
  which a later record for a code replaces an earlier one; and the alignment location,
  taken from the last alignment record.
\<close>

definition statistics_records :: "string list \<Rightarrow> groups list" where
  "statistics_records ls = List.map_filter (re_match tmpre) (header_lines ls)"

definition search_path_records :: "(string \<Rightarrow> string \<Rightarrow> string) \<Rightarrow> string \<Rightarrow> string list \<Rightarrow> (string \<times> string) list" where
  "search_path_records get_relative_path pdbname ls =
     List.map_filter
       (\<lambda>l. map_option (\<lambda>m. (grp m 1, get_relative_path pdbname (grp m 2))) (re_match tmppathre l))
       (header_lines ls)"

definition search_path_table :: "(string \<Rightarrow> string \<Rightarrow> string) \<Rightarrow> string \<Rightarrow> string list \<Rightarrow> (string \<rightharpoonup> string)" where
  "search_path_table get_relative_path pdbname ls =
     map_of (rev (search_path_records get_relative_path pdbname ls))"

definition alignment_location :: "(string \<Rightarrow> string \<Rightarrow> string) \<Rightarrow> string \<Rightarrow> string list \<Rightarrow> location option" where
  "alignment_location get_relative_path pdbname ls =
     (case rev (List.map_filter (re_match alnfilere) (header_lines ls)) of
        [] \<Rightarrow> None
      | m # _ \<Rightarrow> Some (InputFileLocation (get_relative_path pdbname (grp m 1)) None
                         (PStr ''Alignment for starting comparative model'')))"

text \<open>
  The canonical-accession shape of a template code: a digit, three letters or digits, one
  letter, and then nothing or an underscore and any suffix (letters are a to z and A to Z).
\<close>

definition is_alpha :: "char \<Rightarrow> bool" where
  "is_alpha c = ((97 \<le> ord c \<and> ord c \<le> 122) \<or> (65 \<le> ord c \<and> ord c \<le> 90))"

definition is_alnum :: "char \<Rightarrow> bool" where
  "is_alnum c = (is_alpha c \<or> is_digit c)"

fun canonical_shape :: "string \<Rightarrow> bool" where
  "canonical_shape (c0 # c1 # c2 # c3 # c4 # rest) =
     (is_digit c0 \<and> is_alnum c1 \<and> is_alnum c2 \<and> is_alnum c3 \<and> is_alpha c4
      \<and> (case rest of [] \<Rightarrow> True | c # _ \<Rightarrow> c = CHR ''_''))"
| "canonical_shape _ = False"

text \<open>
  A statistics record is well formed when \<^verbatim>\<open>int\<close> and \<^verbatim>\<open>float\<close> accept its number fields,
  and resolves when its code has the canonical shape or an entry in the table.
\<close>

definition numbers_ok :: "(string \<Rightarrow> 'f option) \<Rightarrow> groups \<Rightarrow> bool" where
  "numbers_ok py_float info =
     (\<not> isl (py_int (grp info 2)) \<and> \<not> isl (py_int (grp info 4)) \<and> \<not> isl (py_int (grp info 5))
      \<and> \<not> isl (py_int (grp info 6)) \<and> py_float (grp info 7) \<noteq> None)"

definition code_resolves :: "(string \<rightharpoonup> string) \<Rightarrow> groups \<Rightarrow> bool" where
  "code_resolves table info = (canonical_shape (grp info 1) \<or> table (grp info 1) \<noteq> None)"

text \<open>The group numbers that occur in a pattern; \<open>binds\<close> above are those set by every match.\<close>

fun mentions :: "rx \<Rightarrow> nat set" where
  "mentions (Grp i r) = insert i (mentions r)"
| "mentions (Seq a b) = mentions a \<union> mentions b"
| "mentions (Opt r) = mentions r"
| "mentions _ = {}"

text \<open>
  Instances of the two parameters for the examples; the theorems hold for every function
  in their place.

  Modelled from the spec: \<^verbatim>\<open>util._get_relative_path\<close>, which is not part of the sources at
  hand, resolves a path relative to the directory of the input file.

  \<open>decimal_float\<close> reads plain decimal numerals such as \<^verbatim>\<open>45.0\<close>, on which it agrees with
  \<^verbatim>\<open>float\<close>.
\<close>

definition dirname :: "string \<Rightarrow> string" where
  "dirname p = rev (drop 1 (dropWhile (\<lambda>c. c \<noteq> CHR ''/'') (rev p)))"

definition relative_to_directory :: "string \<Rightarrow> string \<Rightarrow> string" where
  "relative_to_directory reference p =
     (if startswith p ''/'' \<or> CHR ''/'' \<notin> set reference then p
      else dirname reference @ ''/'' @ p)"

definition decimal_float :: "string \<Rightarrow> real option" where
  "decimal_float s =
     (let i = takeWhile is_digit s in
      if i = [] then None
      else (case dropWhile is_digit s of
              [] \<Rightarrow> Some (of_int (digits_value i))
            | c # f \<Rightarrow>
                if c = CHR ''.'' \<and> f \<noteq> [] \<and> list_all is_digit f
                then Some (of_int (digits_value i) + of_int (digits_value f) / 10 ^ length f)
                else None))"

section \<open>Properties of the matcher\<close>

lemma in_rx_run_Seq:
  "(s', m) \<in> set (rx_run (Seq a b) s g) \<longleftrightarrow>
     (\<exists>s1 g1. (s1, g1) \<in> set (rx_run a s g) \<and> (s', m) \<in> set (rx_run b s1 g1))"
  by auto

lemma in_rx_run_Grp:
  "(s', m) \<in> set (rx_run (Grp i r) s g) \<longleftrightarrow>
     (\<exists>g'. (s', g') \<in> set (rx_run r s g) \<and> m = g'(i \<mapsto> take (length s - length s') s))"
  by auto

lemma in_rx_run_Str:
  "(s', m) \<in> set (rx_run (Str p) s g) \<longleftrightarrow> s = p @ s' \<and> m = g"
proof -
  have "take (length p) s = p \<and> s' = drop (length p) s \<longleftrightarrow> s = p @ s'"
    by (metis append_eq_conv_conj)
  then show ?thesis by auto
qed

lemma take_le_takeWhile:
  "k \<le> length (takeWhile P xs) \<Longrightarrow> list_all P (take k xs)"
  by (induction xs arbitrary: k) (auto simp: take_Cons split: nat.splits if_splits)

lemma in_rx_run_Plus:
  assumes "(s', m) \<in> set (rx_run (Plus cs) s g)"
  shows "\<exists>d. d \<noteq> [] \<and> list_all (cs_mem cs) d \<and> s = d @ s' \<and> m = g"
proof -
  from assms obtain k where k: "1 \<le> k" "k \<le> length (takeWhile (cs_mem cs) s)"
      and s': "s' = drop k s" and m: "m = g"
    by auto
  have "length (takeWhile (cs_mem cs) s) \<le> length s" by (rule length_takeWhile_le)
  with k have "take k s \<noteq> []" by auto
  moreover have "list_all (cs_mem cs) (take k s)" using k(2) by (rule take_le_takeWhile)
  moreover have "s = take k s @ s'" using s' by simp
  ultimately show ?thesis using m by blast
qed

lemma rx_run_emdb_group:
  assumes "(s', m) \<in> set (rx_run emdb_re s g)"
  shows "\<exists>d. m 1 = Some (''EMD-'' @ d) \<and> d \<noteq> [] \<and> list_all is_digit d"
proof -
  from assms obtain s4 g4 where "(s', m) \<in> set (rx_run (Grp 1 (Seq (Str ''EMD-'') (Plus Digit))) s4 g4)"
    unfolding emdb_re_def seqs.simps in_rx_run_Seq by blast
  then obtain g' where g': "(s', g') \<in> set (rx_run (Seq (Str ''EMD-'') (Plus Digit)) s4 g4)"
     and m: "m = g'(1 \<mapsto> take (length s4 - length s') s4)"
    unfolding in_rx_run_Grp by blast
  from g' obtain s5 g5 where s5: "s4 = ''EMD-'' @ s5" and "(s', g') \<in> set (rx_run (Plus Digit) s5 g5)"
    unfolding in_rx_run_Seq in_rx_run_Str by blast
  from in_rx_run_Plus [OF this(2)] obtain d where d: "d \<noteq> []" "list_all (cs_mem Digit) d" "s5 = d @ s'"
    by blast
  from s5 d(3) have "s4 = (''EMD-'' @ d) @ s'" by simp
  then have "take (length s4 - length s') s4 = ''EMD-'' @ d"
    by (metis add_diff_cancel_right' append_eq_conv_conj length_append)
  with m d show ?thesis by (simp add: cs_mem.simps [abs_def])
qed

lemma re_match_emdb_group:
  assumes "re_match emdb_re s = Some m"
  shows "\<exists>d. m 1 = Some (''EMD-'' @ d) \<and> d \<noteq> [] \<and> list_all is_digit d"
proof -
  from assms obtain s' where "(s', m) \<in> set (rx_run emdb_re s Map.empty)"
    by (auto simp: re_match_def split: list.splits)
  then show ?thesis by (rule rx_run_emdb_group)
qed

lemma re_search_emdb_group:
  "re_search emdb_re s = Some m \<Longrightarrow> \<exists>d. m 1 = Some (''EMD-'' @ d) \<and> d \<noteq> [] \<and> list_all is_digit d"
  by (induction s) (auto split: option.splits dest: re_match_emdb_group)

lemma is_digit_ascii: "is_digit c \<Longrightarrow> ord c < 128"
  by (simp add: is_digit_def)

lemma decode_emdb_group:
  assumes "re_search emdb_re s = Some m"
  shows "decode_ascii (match_group m 1) = Inr (the (m 1))" and "m 1 \<noteq> None"
proof -
  from re_search_emdb_group [OF assms] obtain d where d: "m 1 = Some (''EMD-'' @ d)" "list_all is_digit d"
    by blast
  from d(2) have "list_all (\<lambda>c. ord c < 128) d" by (auto simp: list_all_iff dest: is_digit_ascii)
  with d(1) show "decode_ascii (match_group m 1) = Inr (the (m 1))" by (simp add: match_group_def ord_def)
  from d(1) show "m 1 \<noteq> None" by simp
qed

section \<open>Properties of the density-map scanner\<close>

lemma fh_read_80:
  assumes "pos h \<le> length (content h)"
  shows "fh_read 80 h = (take 80 (drop (pos h) (content h)), h\<lparr>pos := min (length (content h)) (pos h + 80)\<rparr>)"
  using assms by (auto simp: fh_read_def Let_def min_def)

lemma drop_beyond:
  "take 80 (drop (min (length c) (p + 80) + 80 * i) c) = take 80 (drop (p + 80 * Suc i) c)"
  by (cases "p + 80 \<le> length c") (simp_all add: min_def add.assoc)

lemma first_some_None_iff: "first_some xs = None \<longleftrightarrow> (\<forall>x \<in> set xs. x = None)"
  by (induction xs rule: first_some.induct) auto

lemma label_loop_eq:
  assumes "pos h \<le> length (content h)"
  shows "label_loop k h =
     (let accs = map (\<lambda>i. accession_of (take 80 (drop (pos h + 80 * i) (content h)))) [0..<k];
          n = (case first_some accs of None \<Rightarrow> k
               | Some a \<Rightarrow> Suc (length (takeWhile (\<lambda>x. x = None) accs)))
      in (Inr (first_some accs), h\<lparr>pos := min (length (content h)) (pos h + 80 * n)\<rparr>))"
  using assms
proof (induction k arbitrary: h)
  case 0
  then show ?case by (simp add: min_def)
next
  case (Suc k)
  let ?c = "content h"
  let ?raw = "take 80 (drop (pos h) ?c)"
  let ?h' = "h\<lparr>pos := min (length ?c) (pos h + 80)\<rparr>"
  let ?accs' = "map (\<lambda>i. accession_of (take 80 (drop (pos h + 80 * Suc i) ?c))) [0..<k]"
  have r: "fh_read 80 h = (?raw, ?h')" using Suc.prems by (rule fh_read_80)
  have up: "[0..<Suc k] = 0 # map Suc [0..<k]" by (simp add: upt_conv_Cons map_Suc_upt del: upt_Suc)
  have accs: "map (\<lambda>i. accession_of (take 80 (drop (pos h + 80 * i) ?c))) [0..<Suc k]
                = accession_of ?raw # ?accs'"
    unfolding up by (simp add: o_def)
  show ?case
  proof (cases "re_search emdb_re (strip is_space_bytes ?raw)")
    case None
    then have acc: "accession_of ?raw = None" by (simp add: accession_of_def)
    have "label_loop (Suc k) h = label_loop k ?h'" using r None by simp
    also have "\<dots> = (let accs = ?accs';
          n = (case first_some accs of None \<Rightarrow> k
               | Some a \<Rightarrow> Suc (length (takeWhile (\<lambda>x. x = None) accs)))
      in (Inr (first_some accs), ?h'\<lparr>pos := min (length ?c) (pos ?h' + 80 * n)\<rparr>))"
      using Suc.IH [of ?h'] by (simp add: drop_beyond)
    finally show ?thesis unfolding accs acc
      by (auto simp: Let_def min_def split: option.splits)
  next
    case (Some m)
    from decode_emdb_group [OF Some] obtain a where a: "m 1 = Some a" "decode_ascii (match_group m 1) = Inr a"
      by auto
    then have acc: "accession_of ?raw = Some a" using Some by (simp add: accession_of_def)
    have "label_loop (Suc k) h = (Inr (Some a), ?h')" using r Some a by simp
    then show ?thesis unfolding accs acc by (simp add: Let_def)
  qed
qed

lemma get_emdb_fh_short:
  assumes "fs filename = Some c" "length c < 224"
  shows "fst (get_emdb_fh fs filename) = Inl StructError"
  using assms by (simp add: get_emdb_fh_def fh_open_def fh_seek_def fh_read_def unpack_from_i_def Let_def)

lemma get_emdb_fh_long:
  assumes "fs filename = Some c" "224 \<le> length c"
  shows "get_emdb_fh fs filename =
     (Inr (first_some (record_accessions c (nat (label_count c)))),
      Some \<lparr>content = c, pos = min (length c) (224 + 80 * records_scanned c (nat (label_count c)))\<rparr>)"
proof -
  let ?h2 = "\<lparr>content = c, pos = 224\<rparr>"
  let ?raw = "take 4 (drop 220 c)"
  have len: "length ?raw = 4" using assms(2) by simp
  have rd: "fh_read 4 (fh_seek 220 \<lparr>content = c, pos = 0\<rparr>) = (?raw, ?h2)"
    using assms(2) by (simp add: fh_read_def fh_seek_def Let_def)
  have cnt: "min (sint (word_of_bytes (take 4 ?raw))) (sint (word_of_bytes (rev (take 4 ?raw)))) = label_count c"
    by (simp add: label_count_def slice_def)
  have "pos ?h2 \<le> length (content ?h2)" using assms(2) by simp
  note loop = label_loop_eq [OF this, of "nat (label_count c)"]
  have recs: "record_accessions c n = map (\<lambda>i. accession_of (take 80 (drop (224 + 80 * i) c))) [0..<n]" for n
    by (simp add: record_accessions_def label_record_def slice_def)
  show ?thesis
    unfolding get_emdb_fh_def fh_open_def records_scanned_def recs
    using assms(1) len cnt
    by (simp add: rd unpack_from_i_def loop Let_def del: take_all)
qed

lemma label_record_concat:
  assumes "length h = 224" and "\<forall>l \<in> set ls. length l = 80" and "i < length ls"
  shows "label_record (h @ concat ls) i = ls ! i"
proof -
  have "take 80 (drop (80 * i) (concat ls)) = ls ! i" using assms(2,3)
  proof (induction ls arbitrary: i)
    case Nil
    then show ?case by simp
  next
    case (Cons l ls)
    show ?case
    proof (cases i)
      case 0
      then show ?thesis using Cons.prems by simp
    next
      case (Suc j)
      then have "take 80 (drop (80 * j) (concat ls)) = ls ! j" using Cons by simp
      then show ?thesis using Suc Cons.prems by simp
    qed
  qed
  then show ?thesis using assms(1) by (simp add: label_record_def slice_def)
qed

lemma record_accessions_concat:
  assumes "length h = 224" and "\<forall>l \<in> set ls. length l = 80" and "n \<le> length ls"
  shows "record_accessions (h @ concat ls) n = map accession_of (take n ls)"
  using assms by (auto simp: record_accessions_def label_record_concat intro!: nth_equalityI)

lemma label_count_header:
  assumes "length count = 4"
  shows "label_count (map_header count @ rest)
         = min (sint (word_of_bytes count)) (sint (word_of_bytes (rev count)))"
  using assms by (simp add: label_count_def map_header_def slice_def)

lemma length_map_header: "length count = 4 \<Longrightarrow> length (map_header count) = 224"
  by (simp add: map_header_def)

lemma length_labels [simp]: "length blank_label = 80" "length accession_label = 80"
  by (simp_all add: blank_label_def accession_label_def)

lemma accession_of_blank: "accession_of blank_label = None"
  by (simp add: accession_of_def blank_label_def strip_def lstrip_def rstrip_def is_space_bytes_def
        ord_def re_match_def emdb_re_def)

lemma rstrip_spaces:
  "rstrip is_space_bytes (xs @ replicate n CHR '' '') = rstrip is_space_bytes xs"
proof -
  have "dropWhile is_space_bytes (replicate n CHR '' '' @ rev xs) = dropWhile is_space_bytes (rev xs)"
    by (rule dropWhile_append2) (simp add: is_space_bytes_def ord_def)
  then show ?thesis by (simp add: rstrip_def)
qed

lemma accession_of_label: "accession_of accession_label = Some ''EMD-1234''"
proof -
  have l: "lstrip is_space_bytes accession_label = accession_label"
    by (simp add: lstrip_def accession_label_def is_space_bytes_def ord_def)
  have r: "rstrip is_space_bytes accession_label
           = rstrip is_space_bytes ''::::EMDATABANK.org::::EMD-1234::::''"
    unfolding accession_label_def by (rule rstrip_spaces)
  have "rstrip is_space_bytes ''::::EMDATABANK.org::::EMD-1234::::''
        = ''::::EMDATABANK.org::::EMD-1234::::''"
    by (simp add: rstrip_def is_space_bytes_def ord_def)
  with l r have "strip is_space_bytes accession_label = ''::::EMDATABANK.org::::EMD-1234::::''"
    by (simp add: strip_def)
  then show ?thesis
    by (simp add: accession_of_def re_match_def emdb_re_def is_digit_def ord_def)
qed

lemma example_count: "label_count example_map = 2"
  by (simp add: example_map_def label_count_header word_of_bytes_def ord_def)

lemma example_accessions: "record_accessions example_map 2 = [None, Some ''EMD-1234'']"
  unfolding example_map_def
  by (subst record_accessions_concat)
     (simp_all add: length_map_header accession_of_blank accession_of_label)

lemma overlong_count: "label_count overlong_map = 11"
  by (simp add: overlong_map_def label_count_header word_of_bytes_def ord_def)

lemma overlong_accessions:
  "record_accessions overlong_map 11 = replicate 10 None @ [Some ''EMD-1234'']"
  unfolding overlong_map_def
  by (subst record_accessions_concat)
     (auto simp: length_map_header accession_of_blank accession_of_label)

lemma overlong_record: "label_record overlong_map 10 = accession_label"
  unfolding overlong_map_def
  by (subst label_record_concat) (auto simp: length_map_header nth_append)

lemma length_overlong: "length overlong_map = 1104"
  by (simp add: overlong_map_def length_map_header length_concat sum_list_replicate)

lemma records_scanned_0: "records_scanned c 0 = 0"
  by (simp add: records_scanned_def record_accessions_def)

lemma negative_count: "label_count negative_count_map = - 1"
  by (simp add: negative_count_map_def label_count_header word_of_bytes_def ord_def)


section \<open>The claims about the density-map scanner\<close>

text \<open>
  Claim C1.  For a density map that holds the label-count field (at least 224 bytes), the
  scanner reads the four bytes at offset 220, takes the smaller of their big-endian and
  little-endian readings as signed 32-bit integers as the label count, and looks at that
  many 80-byte label records from offset 224 on: it returns the accession of the first
  record in which the pattern matches, and \<^verbatim>\<open>None\<close> if there is none.  The file position
  at the end shows that it has read exactly the records up to that first match, and all
  of them if nothing matches.
\<close>
theorem get_emdb_smaller_count:
  assumes "fs filename = Some c" and "224 \<le> length c"
  shows "get_emdb fs filename = Inr (first_some (record_accessions c (nat (label_count c))))
       \<and> snd (get_emdb_fh fs filename) =
           Some \<lparr>content = c, pos = min (length c) (224 + 80 * records_scanned c (nat (label_count c)))\<rparr>"
  using assms by (simp add: get_emdb_def get_emdb_fh_long)




theorem get_emdb_smaller_count_witness:
  "[''map.mrc'' \<mapsto> example_map] ''map.mrc'' = Some example_map \<and> 224 \<le> length example_map
   \<and> label_count example_map = 2
   \<and> get_emdb [''map.mrc'' \<mapsto> example_map] ''map.mrc'' = Inr (Some ''EMD-1234'')
   \<and> snd (get_emdb_fh [''map.mrc'' \<mapsto> example_map] ''map.mrc'') = Some \<lparr>content = example_map, pos = 384\<rparr>"
proof -
  have h1: "[''map.mrc'' \<mapsto> example_map] ''map.mrc'' = Some example_map" by simp
  have l: "length example_map = 384" by (simp add: example_map_def length_map_header)
  then have h2: "224 \<le> length example_map" by simp
  from get_emdb_smaller_count [of "[''map.mrc'' \<mapsto> example_map]" "''map.mrc''" example_map, OF h1 h2]
  show ?thesis
    using h2 by (simp add: example_count example_accessions records_scanned_def l)
qed

text \<open>
  The scanner does not clamp the label count to the label area (ten records, up to offset
  1024): with the label count 11 it returns the accession found in bytes 1024 to 1103.
  A file too short to hold the label-count field makes it raise.
\<close>
theorem get_emdb_clamp_counterexample:
  "label_count overlong_map = 11
   \<and> label_record overlong_map 10 = slice overlong_map 1024 1104
   \<and> get_emdb [''map.mrc'' \<mapsto> overlong_map] ''map.mrc'' = Inr (Some ''EMD-1234'')
   \<and> snd (get_emdb_fh [''map.mrc'' \<mapsto> overlong_map] ''map.mrc'')
       = Some \<lparr>content = overlong_map, pos = 1104\<rparr>
   \<and> get_emdb [''short.mrc'' \<mapsto> replicate 100 (CHR 0x00)] ''short.mrc'' = Inl StructError"
proof -
  have f: "first_some (replicate n None @ [Some ''EMD-1234'']) = Some ''EMD-1234''" for n
    by (induction n) simp_all
  have t: "takeWhile (\<lambda>x. x = None) (replicate n None @ [Some ''EMD-1234'']) = replicate n None" for n
    by (induction n) simp_all
  have "get_emdb_fh [''map.mrc'' \<mapsto> overlong_map] ''map.mrc''
        = (Inr (Some ''EMD-1234''), Some \<lparr>content = overlong_map, pos = 1104\<rparr>)"
    by (subst get_emdb_fh_long [where c = overlong_map])
       (simp_all add: length_overlong overlong_count overlong_accessions records_scanned_def f t)
  moreover have "fst (get_emdb_fh [''short.mrc'' \<mapsto> replicate 100 (CHR 0x00)] ''short.mrc'') = Inl StructError"
    by (rule get_emdb_fh_short [where c = "replicate 100 (CHR 0x00)"]) simp_all
  ultimately show ?thesis
    by (simp add: get_emdb_def overlong_count label_record_def)
qed


text \<open>
  Claim C4, as amended.  A file shorter than 224 bytes raises \<^verbatim>\<open>struct.error\<close>.  For any
  other file the scanner never raises; the label count is not clamped: the scanner reads
  as many records as the count says, or up to the first match, where a read at the end of
  the file gives an empty record.  With a negative label count it reads no record and
  returns \<^verbatim>\<open>None\<close>.
\<close>
theorem get_emdb_unclamped:
  assumes "fs filename = Some c"
  shows "if length c < 224 then get_emdb fs filename = Inl StructError
         else (\<exists>r. get_emdb fs filename = Inr r)
              \<and> snd (get_emdb_fh fs filename)
                  = Some \<lparr>content = c,
                           pos = min (length c) (224 + 80 * records_scanned c (nat (label_count c)))\<rparr>
              \<and> (label_count c < 0 \<longrightarrow>
                    get_emdb fs filename = Inr None \<and> records_scanned c (nat (label_count c)) = 0)"
proof (cases "length c < 224")
  case True
  with assms show ?thesis by (simp add: get_emdb_def get_emdb_fh_short)
next
  case False
  then have "224 \<le> length c" by simp
  from get_emdb_fh_long [of fs filename c, OF assms this] False show ?thesis
    by (auto simp: get_emdb_def records_scanned_0 record_accessions_def)
qed


theorem get_emdb_unclamped_witness:
  "[''map.mrc'' \<mapsto> negative_count_map] ''map.mrc'' = Some negative_count_map
   \<and> \<not> length negative_count_map < 224
   \<and> label_count negative_count_map < 0
   \<and> accession_of (label_record negative_count_map 0) = Some ''EMD-1234''
   \<and> get_emdb [''map.mrc'' \<mapsto> negative_count_map] ''map.mrc'' = Inr None
   \<and> snd (get_emdb_fh [''map.mrc'' \<mapsto> negative_count_map] ''map.mrc'')
       = Some \<lparr>content = negative_count_map, pos = 224\<rparr>"
proof -
  have h: "[''map.mrc'' \<mapsto> negative_count_map] ''map.mrc'' = Some negative_count_map" by simp
  have l: "length negative_count_map = 304"
    by (simp add: negative_count_map_def length_map_header)
  have r: "label_record negative_count_map 0 = accession_label"
    unfolding negative_count_map_def
    by (subst label_record_concat) (auto simp: length_map_header)
  from get_emdb_unclamped [of "[''map.mrc'' \<mapsto> negative_count_map]" "''map.mrc''" negative_count_map, OF h]
  show ?thesis
    by (simp add: l negative_count r accession_of_label)
qed

end
